theory Spec2Isabelle
  imports Main
begin

section \<open>Python values, exceptions and syntax trees\<close>

text \<open>
  Instances of Python's \<open>Exception\<close> that the program can meet. The message is kept
  where the source builds it (\<open>ValueError\<close>).
\<close>

datatype pyexc =
    ValueError string
  | TypeError
  | AttributeError
  | ZeroDivisionError
  | KeyError string
  | SyntaxError
  | FileNotFoundError
  | OtherException string

text \<open>
  Python values the evaluator can hold. The type \<open>'f\<close> stands for Python's floats, whose
  arithmetic is left to the runtime. \<open>BuiltinV n\<close> is the function object that the
  \<open>math\<close> module binds to the name \<open>n\<close>.
\<close>

datatype 'f pyval =
    IntV int
  | FloatV 'f
  | ComplexV 'f 'f
  | StrV string
  | BytesV string
  | BoolV bool
  | NoneV
  | EllipsisV
  | BuiltinV string

text \<open>The operator classes of the \<open>ast\<close> module, binary and unary.\<close>

datatype opclass =
    Add | Sub | Mult | MatMult | Div | Mod | Pow | LShift | RShift
  | BitOr | BitXor | BitAnd | FloorDiv
  | Invert | Not | UAdd | USub

text \<open>
  Expression nodes. \<open>Call\<close> keeps the callee, the positional arguments and the keyword
  arguments (\<open>None\<close> names a \<open>**kwargs\<close> entry). \<open>OtherExpr c\<close> is a node of any other
  expression class \<open>c\<close> (comparison, boolean operation, lambda, list display, ...).
\<close>

datatype 'f expr =
    Constant "'f pyval"
  | Name string
  | BinOp "'f expr" opclass "'f expr"
  | UnaryOp opclass "'f expr"
  | Call "'f expr" "'f expr list" "(string option \<times> 'f expr) list"
  | Attribute "'f expr" string
  | Subscript "'f expr" "'f expr"
  | OtherExpr string

text \<open>
  Statement nodes. \<open>OtherStmt c\<close> is a statement of any class other than \<open>Assign\<close> and
  \<open>Expr\<close> (import, loop, conditional, augmented assignment, ...).
\<close>

datatype 'f stmt =
    Assign "'f expr list" "'f expr"
  | Expr "'f expr"
  | OtherStmt string

text \<open>The functions of the \<open>operator\<close> module that the source names.\<close>

datatype operator_fn = op_add | op_sub | op_mul | op_truediv | op_pow | op_mod | op_neg

text \<open>
  The part of Python that the program calls and does not define: the parser, the
  \<open>math\<close> module, the operators outside exact integer and string arithmetic, the file
  system and the JSON reader.
\<close>

datatype 'f json =
    JNull
  | JBool bool
  | JInt int
  | JFloat 'f
  | JStr string
  | JArr "'f json list"
  | JObj "(string \<times> 'f json) list"

record 'f python =
  ast_parse :: "string \<Rightarrow> pyexc + 'f stmt list"
  math_dir :: "string list"
  math_getattr :: "string \<Rightarrow> 'f pyval"
  operator_extern :: "operator_fn \<Rightarrow> 'f pyval list \<Rightarrow> pyexc + 'f pyval"
  builtin_call :: "string \<Rightarrow> 'f pyval list \<Rightarrow> pyexc + 'f pyval"
  open_read :: "string \<Rightarrow> pyexc + string"
  json_loads :: "string \<Rightarrow> pyexc + 'f json"

type_synonym 'f variables = "string \<rightharpoonup> 'f pyval"

section \<open>The math solver\<close>

definition allowed_ops :: "opclass \<rightharpoonup> operator_fn" where
  "allowed_ops = map_of
     [(Add, op_add), (Sub, op_sub), (Mult, op_mul), (Div, op_truediv),
      (Pow, op_pow), (Mod, op_mod), (USub, op_neg)]"

definition startswith :: "string \<Rightarrow> string \<Rightarrow> bool" where
  "startswith s p \<longleftrightarrow> take (length p) s = p"

definition allowed_funcs :: "'f python \<Rightarrow> string \<rightharpoonup> 'f pyval" where
  "allowed_funcs py = map_of
     (map (\<lambda>name. (name, math_getattr py name))
          (filter (\<lambda>name. \<not> startswith name ''__'') (math_dir py)))"

definition constants :: "'f python \<Rightarrow> string \<rightharpoonup> 'f pyval" where
  "constants py = map_of [(''pi'', math_getattr py ''pi''), (''e'', math_getattr py ''e'')]"

text \<open>
  Exact integer arithmetic of the six binary operators; \<open>None\<close> where Python's result
  is a float (true division, a negative exponent), which is the runtime's.
\<close>

fun int_operator :: "operator_fn \<Rightarrow> int \<Rightarrow> int \<Rightarrow> (pyexc + int) option" where
  "int_operator op_add a b = Some (Inr (a + b))"
| "int_operator op_sub a b = Some (Inr (a - b))"
| "int_operator op_mul a b = Some (Inr (a * b))"
| "int_operator op_truediv a b = (if b = 0 then Some (Inl ZeroDivisionError) else None)"
| "int_operator op_pow a b =
     (if 0 \<le> b then Some (Inr (a ^ nat b))
      else if a = 0 then Some (Inl ZeroDivisionError) else None)"
| "int_operator op_mod a b = (if b = 0 then Some (Inl ZeroDivisionError) else Some (Inr (a mod b)))"
| "int_operator op_neg a b = None"

fun arity :: "operator_fn \<Rightarrow> nat" where
  "arity op_neg = 1"
| "arity f = 2"

text \<open>
  Calling a function of the \<open>operator\<close> module: a wrong number of arguments is a
  \<open>TypeError\<close>; two integers, the negation of an integer and the sum of two strings are
  computed here; every other combination is the runtime's.
\<close>

definition call_operator :: "'f python \<Rightarrow> operator_fn \<Rightarrow> 'f pyval list \<Rightarrow> pyexc + 'f pyval" where
  "call_operator py f args =
     (if length args \<noteq> arity f then Inl TypeError
      else case args of
        [IntV a, IntV b] \<Rightarrow>
          (case int_operator f a b of
             Some (Inl exc) \<Rightarrow> Inl exc
           | Some (Inr n) \<Rightarrow> Inr (IntV n)
           | None \<Rightarrow> operator_extern py f args)
      | [StrV a, StrV b] \<Rightarrow>
          (if f = op_add then Inr (StrV (a @ b)) else operator_extern py f args)
      | [IntV a] \<Rightarrow> Inr (IntV (- a))
      | _ \<Rightarrow> operator_extern py f args)"

text \<open>Calling a value: only function objects are callable.\<close>

definition call_value :: "'f python \<Rightarrow> 'f pyval \<Rightarrow> 'f pyval list \<Rightarrow> pyexc + 'f pyval" where
  "call_value py v args =
     (case v of BuiltinV n \<Rightarrow> builtin_call py n args | _ \<Rightarrow> Inl TypeError)"

text \<open>A list comprehension over results: the first exception raised ends it.\<close>

fun collect :: "('e + 'a) list \<Rightarrow> 'e + 'a list" where
  "collect [] = Inr []"
| "collect (Inl e # rs) = Inl e"
| "collect (Inr v # rs) = (case collect rs of Inl e \<Rightarrow> Inl e | Inr vs \<Rightarrow> Inr (v # vs))"

fun safe_eval_expr :: "'f python \<Rightarrow> 'f variables \<Rightarrow> 'f expr \<Rightarrow> pyexc + 'f pyval" where
  "safe_eval_expr py variables (Constant v) = Inr v"
| "safe_eval_expr py variables (Name ident) =
     (case variables ident of
        Some v \<Rightarrow> Inr v
      | None \<Rightarrow>
          (case allowed_funcs py ident of
             Some f \<Rightarrow> Inr f
           | None \<Rightarrow>
               (case constants py ident of
                  Some c \<Rightarrow> Inr c
                | None \<Rightarrow> Inl (ValueError (''Unknown variable or function: '' @ ident)))))"
| "safe_eval_expr py variables (BinOp left op right) =
     (case allowed_ops op of
        Some f \<Rightarrow>
          (case safe_eval_expr py variables left of
             Inl exc \<Rightarrow> Inl exc
           | Inr l \<Rightarrow>
               (case safe_eval_expr py variables right of
                  Inl exc \<Rightarrow> Inl exc
                | Inr r \<Rightarrow> call_operator py f [l, r]))
      | None \<Rightarrow> Inl (ValueError ''Unsupported expression''))"
| "safe_eval_expr py variables (UnaryOp op operand) =
     (case allowed_ops op of
        Some f \<Rightarrow>
          (case safe_eval_expr py variables operand of
             Inl exc \<Rightarrow> Inl exc
           | Inr x \<Rightarrow> call_operator py f [x])
      | None \<Rightarrow> Inl (ValueError ''Unsupported expression''))"
| "safe_eval_expr py variables (Call func args keywords) =
     (case func of
        Name func_name \<Rightarrow>
          (case allowed_funcs py func_name of
             Some f \<Rightarrow>
               (case collect (map (safe_eval_expr py variables) args) of
                  Inl exc \<Rightarrow> Inl exc
                | Inr vs \<Rightarrow> call_value py f vs)
           | None \<Rightarrow> Inl (ValueError (''Function '' @ func_name @ '' not allowed'')))
      | _ \<Rightarrow> Inl AttributeError)"
| "safe_eval_expr py variables (Attribute v a) = Inl (ValueError ''Unsupported expression'')"
| "safe_eval_expr py variables (Subscript v i) = Inl (ValueError ''Unsupported expression'')"
| "safe_eval_expr py variables (OtherExpr c) = Inl (ValueError ''Unsupported expression'')"

text \<open>
  Python's \<open>str.replace(old, new)\<close>: occurrences of \<open>old\<close> are replaced from left to
  right without overlap; an empty \<open>old\<close> matches before every character and at the end.
\<close>

function str_replace :: "string \<Rightarrow> string \<Rightarrow> string \<Rightarrow> string" where
  "str_replace old new s =
     (if old = [] then new @ concat (map (\<lambda>c. c # new) s)
      else if s = [] then []
      else if take (length old) s = old
        then new @ str_replace old new (drop (length old) s)
      else hd s # str_replace old new (tl s))"
  by pat_completeness auto
termination
  by (relation "measure (\<lambda>(old, new, s). length s)") auto

declare str_replace.simps [simp del]

text \<open>
  The loop over \<open>parsed.body\<close> with its final \<open>return result\<close>. The outcome is the
  exception raised (\<open>Inl\<close>) or the value returned (\<open>Inr\<close>), with the variable table as the
  loop left it.
\<close>

fun exec_body ::
  "'f python \<Rightarrow> 'f stmt list \<Rightarrow> 'f pyval \<Rightarrow> 'f variables \<Rightarrow> (pyexc + 'f pyval) \<times> 'f variables"
where
  "exec_body py [] result variables = (Inr result, variables)"
| "exec_body py (Assign targets val # rest) result variables =
     (case targets of
        [Name var_name] \<Rightarrow>
          (case safe_eval_expr py variables val of
             Inl exc \<Rightarrow> (Inl exc, variables)
           | Inr v \<Rightarrow> exec_body py rest v (variables(var_name \<mapsto> v)))
      | _ \<Rightarrow> (Inr (StrV ''Invalid assignment''), variables))"
| "exec_body py (Expr val # rest) result variables =
     (case safe_eval_expr py variables val of
        Inl exc \<Rightarrow> (Inl exc, variables)
      | Inr v \<Rightarrow> exec_body py rest v variables)"
| "exec_body py (OtherStmt c # rest) result variables =
     (Inr (StrV ''Unsupported statement''), variables)"

definition solve_math_expression ::
  "'f python \<Rightarrow> 'f variables \<Rightarrow> string \<Rightarrow> 'f pyval \<times> 'f variables"
where
  "solve_math_expression py variables expr =
     (case ast_parse py (str_replace ''^'' ''**'' expr) of
        Inl exc \<Rightarrow> (NoneV, variables)
      | Inr body \<Rightarrow>
          (case exec_body py body NoneV variables of
             (Inl exc, variables') \<Rightarrow> (NoneV, variables')
           | (Inr result, variables') \<Rightarrow> (result, variables')))"

text \<open>
  The test of the session loop on the solver's result: the answer is printed when it is
  not \<open>None\<close>, and the knowledge base is tried otherwise.
\<close>

definition falls_through :: "'f pyval \<Rightarrow> bool" where
  "falls_through math_result \<longleftrightarrow> math_result = NoneV"

section \<open>The knowledge base\<close>

text \<open>
  A JSON object is the dictionary that \<open>json.load\<close> builds, as an association list
  (its keys are distinct); \<open>JNull\<close> is Python's \<open>None\<close>.
\<close>

definition load_knowledge_base :: "'f python \<Rightarrow> string \<Rightarrow> pyexc + 'f json" where
  "load_knowledge_base py file_path =
     (case (case open_read py file_path of
              Inl exc \<Rightarrow> Inl exc
            | Inr text \<Rightarrow> json_loads py text) of
        Inl exc \<Rightarrow>
          (if exc = FileNotFoundError then Inr (JObj [(''questions'', JArr [])]) else Inl exc)
      | Inr data \<Rightarrow> Inr data)"

text \<open>Subscripting with a string key: only a dictionary accepts it.\<close>

definition getitem :: "'f json \<Rightarrow> string \<Rightarrow> pyexc + 'f json" where
  "getitem v key =
     (case v of
        JObj kvs \<Rightarrow> (case map_of kvs key of None \<Rightarrow> Inl (KeyError key) | Some x \<Rightarrow> Inr x)
      | _ \<Rightarrow> Inl TypeError)"

text \<open>
  What a \<open>for\<close> loop iterates over: the items of a list, the keys of a dictionary, the
  characters of a string; nothing else is iterable.
\<close>

definition iter_items :: "'f json \<Rightarrow> pyexc + 'f json list" where
  "iter_items v =
     (case v of
        JArr xs \<Rightarrow> Inr xs
      | JObj kvs \<Rightarrow> Inr (map (\<lambda>kv. JStr (fst kv)) kvs)
      | JStr s \<Rightarrow> Inr (map (\<lambda>c. JStr [c]) s)
      | _ \<Rightarrow> Inl TypeError)"

fun scan_questions :: "'f json list \<Rightarrow> string \<Rightarrow> pyexc + 'f json" where
  "scan_questions [] question = Inr JNull"
| "scan_questions (q # qs) question =
     (case getitem q ''question'' of
        Inl exc \<Rightarrow> Inl exc
      | Inr x \<Rightarrow>
          (if x = JStr question then getitem q ''answer''
           else scan_questions qs question))"

definition get_answer_for_question :: "string \<Rightarrow> 'f json \<Rightarrow> pyexc + 'f json" where
  "get_answer_for_question question knowledge_base =
     (case getitem knowledge_base ''questions'' of
        Inl exc \<Rightarrow> Inl exc
      | Inr questions \<Rightarrow>
          (case iter_items questions of
             Inl exc \<Rightarrow> Inl exc
           | Inr qs \<Rightarrow> scan_questions qs question))"

section \<open>Predicates on syntax trees\<close>

text \<open>A statement that the loop evaluates: an assignment to one name, or an expression.\<close>

fun plain_stmt :: "'f stmt \<Rightarrow> bool" where
  "plain_stmt (Assign [Name n] v) = True"
| "plain_stmt (Expr v) = True"
| "plain_stmt st = False"

text \<open>
  An expression built only from constants, names, operators of \<open>allowed_ops\<close> and calls
  of a bare name of \<open>allowed_funcs\<close> with such arguments.
\<close>

fun safelisted :: "'f python \<Rightarrow> 'f expr \<Rightarrow> bool" where
  "safelisted py (Constant v) = True"
| "safelisted py (Name n) = True"
| "safelisted py (BinOp l op r) = (allowed_ops op \<noteq> None \<and> safelisted py l \<and> safelisted py r)"
| "safelisted py (UnaryOp op x) = (allowed_ops op \<noteq> None \<and> safelisted py x)"
| "safelisted py (Call f args kws) =
     ((case f of Name n \<Rightarrow> allowed_funcs py n \<noteq> None | _ \<Rightarrow> False)
      \<and> list_all (safelisted py) args)"
| "safelisted py (Attribute x a) = False"
| "safelisted py (Subscript x i) = False"
| "safelisted py (OtherExpr c) = False"

text \<open>
  Attribute access or subscripting anywhere in an expression, keyword arguments
  included.
\<close>

fun contains_access :: "'f expr \<Rightarrow> bool" where
  "contains_access (Constant v) = False"
| "contains_access (Name n) = False"
| "contains_access (BinOp l op r) = (contains_access l \<or> contains_access r)"
| "contains_access (UnaryOp op x) = contains_access x"
| "contains_access (Call f args kws) =
     (contains_access f \<or> list_ex contains_access args
      \<or> list_ex contains_access (map snd kws))"
| "contains_access (Attribute x a) = True"
| "contains_access (Subscript x i) = True"
| "contains_access (OtherExpr c) = False"

text \<open>
  Attribute access or subscripting at a place the evaluator reaches: the expression
  itself, an operand, the callee or a positional argument of a call.
\<close>

fun visited_access :: "'f expr \<Rightarrow> bool" where
  "visited_access (Constant v) = False"
| "visited_access (Name n) = False"
| "visited_access (BinOp l op r) = (visited_access l \<or> visited_access r)"
| "visited_access (UnaryOp op x) = visited_access x"
| "visited_access (Call f args kws) = (visited_access f \<or> list_ex visited_access args)"
| "visited_access (Attribute x a) = True"
| "visited_access (Subscript x i) = True"
| "visited_access (OtherExpr c) = False"

text \<open>
  An entry of the knowledge base as the data model has it: a dictionary whose
  \<open>question\<close> and \<open>answer\<close> are strings.
\<close>

definition knowledge_entry :: "'f json \<Rightarrow> bool" where
  "knowledge_entry e \<longleftrightarrow>
     (case getitem e ''question'' of
        Inr (JStr q) \<Rightarrow> (case getitem e ''answer'' of Inr (JStr a) \<Rightarrow> True | _ \<Rightarrow> False)
      | _ \<Rightarrow> False)"

section \<open>A fragment of CPython\<close>

text \<open>
  The runtime at the inputs the closed theorems below use: what \<open>ast.parse\<close> returns on
  a few lines, the names of the \<open>math\<close> module, \<open>math.floor\<close> on an integer and a file
  system with one knowledge file. Outside these inputs the fragment raises.
\<close>

datatype math_float = F_pi | F_e | F_tau | F_inf | F_nan

definition parse_table :: "(string \<times> math_float stmt list) list" where
  "parse_table =
     [(''x = 5'', [Assign [Name ''x''] (Constant (IntV 5))]),
      (''x + 1'', [Expr (BinOp (Name ''x'') Add (Constant (IntV 1)))]),
      (''2**3'', [Expr (BinOp (Constant (IntV 2)) Pow (Constant (IntV 3)))]),
      (''a = b = 5'', [Assign [Name ''a'', Name ''b''] (Constant (IntV 5))]),
      (''import os'', [OtherStmt ''Import'']),
      (''x = 5; x + 1'',
         [Assign [Name ''x''] (Constant (IntV 5)),
          Expr (BinOp (Name ''x'') Add (Constant (IntV 1)))]),
      (''x = 5; 1/0'',
         [Assign [Name ''x''] (Constant (IntV 5)),
          Expr (BinOp (Constant (IntV 1)) Div (Constant (IntV 0)))]),
      (''floor(7, key=x.y)'',
         [Expr (Call (Name ''floor'') [Constant (IntV 7)]
                  [(Some ''key'', Attribute (Name ''x'') ''y'')])]),
      (''x.y'', [Expr (Attribute (Name ''x'') ''y'')]),
      (''tau'', [Expr (Name ''tau'')]),
      (''y'', [Expr (Name ''y'')]),
      (''1/0'', [Expr (BinOp (Constant (IntV 1)) Div (Constant (IntV 0)))])]"

definition math_names :: "string list" where
  "math_names =
     [''__doc__'', ''__loader__'', ''__name__'', ''__package__'', ''__spec__'',
      ''acos'', ''acosh'', ''asin'', ''asinh'', ''atan'', ''atan2'', ''atanh'', ''ceil'',
      ''comb'', ''copysign'', ''cos'', ''cosh'', ''degrees'', ''dist'', ''e'', ''erf'',
      ''erfc'', ''exp'', ''expm1'', ''fabs'', ''factorial'', ''floor'', ''fmod'', ''frexp'',
      ''fsum'', ''gamma'', ''gcd'', ''hypot'', ''inf'', ''isclose'', ''isfinite'', ''isinf'',
      ''isnan'', ''isqrt'', ''lcm'', ''ldexp'', ''lgamma'', ''log'', ''log10'', ''log1p'',
      ''log2'', ''modf'', ''nan'', ''nextafter'', ''perm'', ''pi'', ''pow'', ''prod'',
      ''radians'', ''remainder'', ''sin'', ''sinh'', ''sqrt'', ''tan'', ''tanh'', ''tau'',
      ''trunc'', ''ulp'']"

definition math_values :: "string \<Rightarrow> math_float pyval" where
  "math_values n =
     (if n = ''pi'' then FloatV F_pi
      else if n = ''e'' then FloatV F_e
      else if n = ''tau'' then FloatV F_tau
      else if n = ''inf'' then FloatV F_inf
      else if n = ''nan'' then FloatV F_nan
      else if startswith n ''__'' then NoneV
      else BuiltinV n)"

definition cpython_fragment :: "math_float python" where
  "cpython_fragment =
     \<lparr> ast_parse = (\<lambda>s. case map_of parse_table s of None \<Rightarrow> Inl SyntaxError | Some b \<Rightarrow> Inr b),
       math_dir = math_names,
       math_getattr = math_values,
       operator_extern = (\<lambda>f args. Inl TypeError),
       builtin_call = (\<lambda>n args.
          case args of
            [IntV a] \<Rightarrow> if n = ''floor'' then Inr (IntV a) else Inl TypeError
          | _ \<Rightarrow> Inl TypeError),
       open_read = (\<lambda>p.
          if p = ''kb.json'' then Inr ''{}''
          else if p = ''bad.json'' then Inr ''{''
          else if p = ''locked.json'' then Inl (OtherException ''PermissionError'')
          else Inl FileNotFoundError),
       json_loads = (\<lambda>t.
          if t = ''{}'' then Inr (JObj []) else Inl (ValueError ''JSONDecodeError'')) \<rparr>"

definition example_kb :: "math_float json" where
  "example_kb =
     JObj [(''questions'', JArr
       [JObj [(''question'', JStr ''hi''), (''answer'', JStr ''A'')],
        JObj [(''question'', JStr ''Hi''), (''answer'', JStr ''B'')],
        JObj [(''question'', JStr ''hi''), (''answer'', JStr ''C'')]])]"

lemmas fragment_defs =
  cpython_fragment_def parse_table_def math_names_def math_values_def startswith_def
  constants_def allowed_ops_def call_operator_def call_value_def

section \<open>Auxiliary facts\<close>

lemma str_replace_char:
  "str_replace [c] new s = concat (map (\<lambda>x. if x = c then new else [x]) s)"
proof (induction s)
  case Nil
  show ?case by (simp add: str_replace.simps)
next
  case (Cons x xs)
  show ?case
  proof (cases "x = c")
    case True
    then show ?thesis
      using Cons.IH by (subst str_replace.simps) simp
  next
    case False
    then show ?thesis
      using Cons.IH by (subst str_replace.simps) simp
  qed
qed

lemma allowed_funcs_lookup:
  "allowed_funcs py n =
     (if n \<in> set (math_dir py) \<and> \<not> startswith n ''__'' then Some (math_getattr py n) else None)"
  unfolding allowed_funcs_def
  by (simp add: map_of_map_restrict restrict_map_def)

lemma exec_body_append:
  "list_all plain_stmt pre \<Longrightarrow> exec_body py pre r vars = (Inr r1, vars1) \<Longrightarrow>
   exec_body py (pre @ post) r vars = exec_body py post r1 vars1"
proof (induction pre arbitrary: r vars)
  case Nil
  then show ?case by simp
next
  case (Cons st pre)
  then show ?case
    by (cases st rule: plain_stmt.cases) (auto split: sum.splits)
qed

lemma collect_Inr_all:
  "collect rs = Inr vs \<Longrightarrow> \<forall>r \<in> set rs. \<exists>v. r = Inr v"
proof (induction rs arbitrary: vs)
  case Nil
  then show ?case by simp
next
  case (Cons r rs)
  then show ?case
    by (cases r) (auto split: sum.splits)
qed

lemma safe_eval_safelisted:
  "safe_eval_expr py vars e = Inr v \<Longrightarrow> safelisted py e"
proof (induction e arbitrary: v)
  case (Call f args kws)
  from Call.prems obtain n g vs where f: "f = Name n"
    and g: "allowed_funcs py n = Some g"
    and vs: "collect (map (safe_eval_expr py vars) args) = Inr vs"
    by (auto split: expr.splits option.splits sum.splits)
  from collect_Inr_all [OF vs]
  have "\<forall>a \<in> set args. \<exists>w. safe_eval_expr py vars a = Inr w"
    by auto
  with Call.IH(2) have "\<forall>a \<in> set args. safelisted py a"
    by blast
  with f g show ?case
    by (simp add: list_all_iff)
qed (auto split: option.splits sum.splits)

lemma visited_access_not_safelisted:
  "visited_access e \<Longrightarrow> \<not> safelisted py e"
proof (induction e)
  case (Call f args kws)
  show ?case
  proof
    assume safe: "safelisted py (Call f args kws)"
    then obtain n where "f = Name n"
      by (cases f) auto
    with Call.prems obtain a where a: "a \<in> set args" "visited_access a"
      by (auto simp: list_ex_iff)
    from safe a(1) have "safelisted py a"
      by (simp add: list_all_iff)
    with Call.IH(2) [OF a] show False
      by simp
  qed
qed auto

lemma solve_at_prefix:
  assumes "ast_parse py (str_replace ''^'' ''**'' s) = Inr (pre @ post)"
    and "list_all plain_stmt pre"
    and "exec_body py pre NoneV vars = (Inr r, vars1)"
  shows "solve_math_expression py vars s =
           (case exec_body py post r vars1 of
              (Inl exc, vars') \<Rightarrow> (NoneV, vars')
            | (Inr res, vars') \<Rightarrow> (res, vars'))"
  using assms exec_body_append [of pre py NoneV vars r vars1 post]
  by (simp add: solve_math_expression_def)

lemma invalid_targets:
  "\<forall>n. ts \<noteq> [Name n] \<Longrightarrow>
   exec_body py (Assign ts e # rest) r vars = (Inr (StrV ''Invalid assignment''), vars)"
  by (auto split: list.splits expr.splits)

lemma dunder_not_allowed: "startswith n ''__'' \<Longrightarrow> allowed_funcs py n = None"
  by (simp add: allowed_funcs_lookup)

lemma allowed_ops_dom: "dom allowed_ops = {Add, Sub, Mult, Div, Pow, Mod, USub}"
  by (auto simp: allowed_ops_def split: if_splits)

lemma constants_dom: "dom (constants py) = {''pi'', ''e''}"
  by (auto simp: constants_def split: if_splits)

lemma allowed_ops_None:
  "op \<notin> {Add, Sub, Mult, Div, Pow, Mod, USub} \<Longrightarrow> allowed_ops op = None"
  using allowed_ops_dom by (auto simp: domIff)

lemma solve_prefix_cases:
  assumes "ast_parse py (str_replace ''^'' ''**'' s) = Inr (pre @ st # post)"
    and "list_all plain_stmt pre"
    and "exec_body py pre NoneV vars = (Inr r, vars1)"
  shows "safe_eval_expr py vars1 e = Inl exc \<Longrightarrow> st = Expr e \<Longrightarrow>
           solve_math_expression py vars s = (NoneV, vars1)"
    and "safe_eval_expr py vars1 e = Inl exc \<Longrightarrow> st = Assign [Name n] e \<Longrightarrow>
           solve_math_expression py vars s = (NoneV, vars1)"
    and "\<forall>m. ts \<noteq> [Name m] \<Longrightarrow> st = Assign ts e \<Longrightarrow>
           solve_math_expression py vars s = (StrV ''Invalid assignment'', vars1)"
    and "st = OtherStmt c \<Longrightarrow>
           solve_math_expression py vars s = (StrV ''Unsupported statement'', vars1)"
    and "safe_eval_expr py vars1 e = Inr v \<Longrightarrow> st = Expr e \<Longrightarrow> post = [] \<Longrightarrow>
           solve_math_expression py vars s = (v, vars1)"
    and "safe_eval_expr py vars1 e = Inr v \<Longrightarrow> st = Assign [Name n] e \<Longrightarrow> post = [] \<Longrightarrow>
           solve_math_expression py vars s = (v, vars1(n \<mapsto> v))"
proof -
  have eq: "solve_math_expression py vars s =
              (case exec_body py (st # post) r vars1 of
                 (Inl exc, vars') \<Rightarrow> (NoneV, vars')
               | (Inr res, vars') \<Rightarrow> (res, vars'))"
    using assms by (rule solve_at_prefix)
  show "safe_eval_expr py vars1 e = Inl exc \<Longrightarrow> st = Expr e \<Longrightarrow>
           solve_math_expression py vars s = (NoneV, vars1)"
    by (simp add: eq)
  show "safe_eval_expr py vars1 e = Inl exc \<Longrightarrow> st = Assign [Name n] e \<Longrightarrow>
           solve_math_expression py vars s = (NoneV, vars1)"
    by (simp add: eq)
  show "\<forall>m. ts \<noteq> [Name m] \<Longrightarrow> st = Assign ts e \<Longrightarrow>
           solve_math_expression py vars s = (StrV ''Invalid assignment'', vars1)"
    by (simp add: eq invalid_targets del: exec_body.simps)
  show "st = OtherStmt c \<Longrightarrow>
           solve_math_expression py vars s = (StrV ''Unsupported statement'', vars1)"
    by (simp add: eq)
  show "safe_eval_expr py vars1 e = Inr v \<Longrightarrow> st = Expr e \<Longrightarrow> post = [] \<Longrightarrow>
           solve_math_expression py vars s = (v, vars1)"
    by (simp add: eq)
  show "safe_eval_expr py vars1 e = Inr v \<Longrightarrow> st = Assign [Name n] e \<Longrightarrow> post = [] \<Longrightarrow>
           solve_math_expression py vars s = (v, vars1(n \<mapsto> v))"
    by (simp add: eq)
qed

lemma not_safelisted_raises:
  "\<not> safelisted py e \<Longrightarrow> \<exists>exc. safe_eval_expr py vars e = Inl exc"
  by (cases "safe_eval_expr py vars e") (auto dest: safe_eval_safelisted)

lemma scan_first_match:
  "list_all knowledge_entry pre \<Longrightarrow>
   \<forall>p \<in> set pre. getitem p ''question'' \<noteq> Inr (JStr q) \<Longrightarrow>
   getitem e ''question'' = Inr (JStr q) \<Longrightarrow>
   scan_questions (pre @ e # post) q = getitem e ''answer''"
proof (induction pre)
  case Nil
  then show ?case by simp
next
  case (Cons p pre)
  then show ?case
    by (auto simp: knowledge_entry_def split: sum.splits json.splits)
qed

lemma scan_no_match:
  "list_all knowledge_entry es \<Longrightarrow>
   \<forall>p \<in> set es. getitem p ''question'' \<noteq> Inr (JStr q) \<Longrightarrow>
   scan_questions es q = Inr JNull"
proof (induction es)
  case Nil
  then show ?case by simp
next
  case (Cons p es)
  then show ?case
    by (auto simp: knowledge_entry_def split: sum.splits json.splits)
qed

section \<open>The evaluator boundary\<close>

text \<open>
  C1, as the code has it. \<open>solve_math_expression\<close> is total: it never raises. When the
  parser raises, or when the expression of an expression statement or the right-hand
  side of a one-name assignment raises (an unknown identifier, a function that is not
  allowed, a division by zero, ...), the call returns \<open>None\<close>. An assignment whose
  targets are not exactly one name returns the string \<open>Invalid assignment\<close>, and a
  statement that is neither an assignment nor an expression returns the string
  \<open>Unsupported statement\<close>; in each case the variable table is the one the earlier
  statements left.
\<close>

theorem solve_failure_values:
  "(ast_parse py (str_replace ''^'' ''**'' s) = Inl exc0 \<longrightarrow>
      solve_math_expression py vars s = (NoneV, vars))
   \<and> (ast_parse py (str_replace ''^'' ''**'' s) = Inr (pre @ st # post)
        \<and> list_all plain_stmt pre
        \<and> exec_body py pre NoneV vars = (Inr r, vars1) \<longrightarrow>
      (st = Expr e \<and> safe_eval_expr py vars1 e = Inl exc \<longrightarrow>
         solve_math_expression py vars s = (NoneV, vars1))
      \<and> (st = Assign [Name n] e \<and> safe_eval_expr py vars1 e = Inl exc \<longrightarrow>
         solve_math_expression py vars s = (NoneV, vars1))
      \<and> (st = Assign ts e \<and> (\<forall>m. ts \<noteq> [Name m]) \<longrightarrow>
         solve_math_expression py vars s = (StrV ''Invalid assignment'', vars1))
      \<and> (st = OtherStmt c \<longrightarrow>
         solve_math_expression py vars s = (StrV ''Unsupported statement'', vars1)))"
proof (intro conjI impI)
  assume "ast_parse py (str_replace ''^'' ''**'' s) = Inl exc0"
  then show "solve_math_expression py vars s = (NoneV, vars)"
    by (simp add: solve_math_expression_def)
next
  assume a: "ast_parse py (str_replace ''^'' ''**'' s) = Inr (pre @ st # post)
        \<and> list_all plain_stmt pre
        \<and> exec_body py pre NoneV vars = (Inr r, vars1)"
  assume "st = Expr e \<and> safe_eval_expr py vars1 e = Inl exc"
  with a show "solve_math_expression py vars s = (NoneV, vars1)"
    by (simp add: solve_at_prefix [of py s pre "st # post" vars r vars1])
next
  assume a: "ast_parse py (str_replace ''^'' ''**'' s) = Inr (pre @ st # post)
        \<and> list_all plain_stmt pre
        \<and> exec_body py pre NoneV vars = (Inr r, vars1)"
  assume "st = Assign [Name n] e \<and> safe_eval_expr py vars1 e = Inl exc"
  with a show "solve_math_expression py vars s = (NoneV, vars1)"
    by (simp add: solve_at_prefix [of py s pre "st # post" vars r vars1])
next
  assume a: "ast_parse py (str_replace ''^'' ''**'' s) = Inr (pre @ st # post)
        \<and> list_all plain_stmt pre
        \<and> exec_body py pre NoneV vars = (Inr r, vars1)"
  assume "st = Assign ts e \<and> (\<forall>m. ts \<noteq> [Name m])"
  with a show "solve_math_expression py vars s = (StrV ''Invalid assignment'', vars1)"
    by (simp add: solve_at_prefix [of py s pre "st # post" vars r vars1] invalid_targets
             del: exec_body.simps)
next
  assume a: "ast_parse py (str_replace ''^'' ''**'' s) = Inr (pre @ st # post)
        \<and> list_all plain_stmt pre
        \<and> exec_body py pre NoneV vars = (Inr r, vars1)"
  assume "st = OtherStmt c"
  with a show "solve_math_expression py vars s = (StrV ''Unsupported statement'', vars1)"
    by (simp add: solve_at_prefix [of py s pre "st # post" vars r vars1])
qed

theorem solve_failure_values_witness:
  "ast_parse cpython_fragment (str_replace ''^'' ''**'' ''1/0'')
     = Inr ([] @ Expr (BinOp (Constant (IntV 1)) Div (Constant (IntV 0))) # [])
   \<and> safe_eval_expr cpython_fragment Map.empty
        (BinOp (Constant (IntV 1)) Div (Constant (IntV 0))) = Inl ZeroDivisionError
   \<and> solve_math_expression cpython_fragment Map.empty ''1/0'' = (NoneV, Map.empty)
   \<and> falls_through (fst (solve_math_expression cpython_fragment Map.empty ''1/0''))"
proof -
  have p: "ast_parse cpython_fragment (str_replace ''^'' ''**'' ''1/0'')
     = Inr ([] @ Expr (BinOp (Constant (IntV 1)) Div (Constant (IntV 0))) # [])"
    by (simp add: fragment_defs str_replace_char)
  have e: "safe_eval_expr cpython_fragment Map.empty
        (BinOp (Constant (IntV 1)) Div (Constant (IntV 0))) = Inl ZeroDivisionError"
    by (simp add: fragment_defs)
  from solve_failure_values
    [where py = cpython_fragment and s = "''1/0''" and pre = "[]" and post = "[]"
       and st = "Expr (BinOp (Constant (IntV 1)) Div (Constant (IntV 0)))"
       and vars = Map.empty and r = NoneV and ?vars1.0 = Map.empty
       and e = "BinOp (Constant (IntV 1)) Div (Constant (IntV 0))"
       and exc = ZeroDivisionError]
    p e
  have "solve_math_expression cpython_fragment Map.empty ''1/0'' = (NoneV, Map.empty)"
    by simp
  with p e show ?thesis
    by (simp add: falls_through_def)
qed

text \<open>
  The claim as stated fails on an assignment with two targets: the call returns the
  string \<open>Invalid assignment\<close>, which is not \<open>None\<close>, so the session loop prints it.
\<close>

theorem invalid_assignment_is_not_none:
  "fst (solve_math_expression cpython_fragment Map.empty ''a = b = 5'')
     = StrV ''Invalid assignment''
   \<and> \<not> falls_through (fst (solve_math_expression cpython_fragment Map.empty ''a = b = 5''))"
  by (simp add: fragment_defs str_replace_char solve_math_expression_def falls_through_def)

section \<open>The safelist\<close>

text \<open>
  C2, as the code has it. Calling \<open>__import__\<close> raises for every runtime and every
  variable table, since no name that starts with two underscores is in \<open>allowed_funcs\<close>.
  An expression that evaluates to a value is built only from constants, names, operators
  of \<open>allowed_ops\<close> and calls of a bare name of \<open>allowed_funcs\<close>. An expression with an
  attribute access or a subscript at a place the evaluator reaches (the expression
  itself, an operand, a callee, a positional argument) raises, and a statement that
  evaluates an expression outside the safelist makes the call return \<open>None\<close>.
\<close>

theorem evaluation_stays_in_safelist:
  "safe_eval_expr py vars (Call (Name ''__import__'') args kws)
      = Inl (ValueError ''Function __import__ not allowed'')
   \<and> (safe_eval_expr py vars e = Inr v \<longrightarrow> safelisted py e)
   \<and> (visited_access e \<longrightarrow> (\<exists>exc. safe_eval_expr py vars e = Inl exc))
   \<and> (ast_parse py (str_replace ''^'' ''**'' s) = Inr (pre @ st # post)
        \<and> list_all plain_stmt pre
        \<and> exec_body py pre NoneV vars = (Inr r, vars1)
        \<and> (st = Expr e \<or> st = Assign [Name n] e)
        \<and> \<not> safelisted py e \<longrightarrow>
      solve_math_expression py vars s = (NoneV, vars1))"
proof (intro conjI impI)
  show "safe_eval_expr py vars (Call (Name ''__import__'') args kws)
      = Inl (ValueError ''Function __import__ not allowed'')"
    by (simp add: dunder_not_allowed startswith_def)
next
  assume "safe_eval_expr py vars e = Inr v"
  then show "safelisted py e"
    by (rule safe_eval_safelisted)
next
  assume "visited_access e"
  then have "\<not> safelisted py e"
    by (rule visited_access_not_safelisted)
  then show "\<exists>exc. safe_eval_expr py vars e = Inl exc"
    by (rule not_safelisted_raises)
next
  assume a: "ast_parse py (str_replace ''^'' ''**'' s) = Inr (pre @ st # post)
        \<and> list_all plain_stmt pre
        \<and> exec_body py pre NoneV vars = (Inr r, vars1)
        \<and> (st = Expr e \<or> st = Assign [Name n] e)
        \<and> \<not> safelisted py e"
  then obtain exc where x: "safe_eval_expr py vars1 e = Inl exc"
    using not_safelisted_raises by blast
  from a have p: "ast_parse py (str_replace ''^'' ''**'' s) = Inr (pre @ st # post)"
    and l: "list_all plain_stmt pre"
    and b: "exec_body py pre NoneV vars = (Inr r, vars1)"
    and d: "st = Expr e \<or> st = Assign [Name n] e"
    by simp_all
  from d show "solve_math_expression py vars s = (NoneV, vars1)"
  proof
    assume "st = Expr e"
    with solve_prefix_cases(1) [OF p l b x] show ?thesis .
  next
    assume "st = Assign [Name n] e"
    with solve_prefix_cases(2) [OF p l b x] show ?thesis .
  qed
qed

theorem evaluation_stays_in_safelist_witness:
  "ast_parse cpython_fragment (str_replace ''^'' ''**'' ''x.y'')
     = Inr ([] @ Expr (Attribute (Name ''x'') ''y'') # [])
   \<and> visited_access (Attribute (Name ''x'') ''y'' :: math_float expr)
   \<and> \<not> safelisted cpython_fragment (Attribute (Name ''x'') ''y'')
   \<and> solve_math_expression cpython_fragment Map.empty ''x.y'' = (NoneV, Map.empty)
   \<and> safe_eval_expr cpython_fragment Map.empty
        (Call (Name ''__import__'') [Constant (StrV ''os'')] [])
      = Inl (ValueError ''Function __import__ not allowed'')"
proof -
  have p: "ast_parse cpython_fragment (str_replace ''^'' ''**'' ''x.y'')
     = Inr ([] @ Expr (Attribute (Name ''x'') ''y'') # [])"
    by (simp add: fragment_defs str_replace_char)
  note t = evaluation_stays_in_safelist
    [where py = cpython_fragment and s = "''x.y''" and pre = "[]" and post = "[]"
       and st = "Expr (Attribute (Name ''x'') ''y'')"
       and vars = Map.empty and r = NoneV and ?vars1.0 = Map.empty
       and e = "Attribute (Name ''x'') ''y''"
       and args = "[Constant (StrV ''os'')]" and kws = "[]"]
  from t p
  have "solve_math_expression cpython_fragment Map.empty ''x.y'' = (NoneV, Map.empty)"
    by simp
  moreover from t
  have "safe_eval_expr cpython_fragment Map.empty
        (Call (Name ''__import__'') [Constant (StrV ''os'')] [])
      = Inl (ValueError ''Function __import__ not allowed'')"
    by blast
  ultimately show ?thesis
    using p by simp
qed

text \<open>
  The claim as stated fails on a call with a keyword argument: the evaluator never
  looks at keyword arguments, so an attribute access there is not rejected and the call
  is evaluated on its positional arguments.
\<close>

theorem keyword_argument_access_evaluates:
  "ast_parse cpython_fragment (str_replace ''^'' ''**'' ''floor(7, key=x.y)'')
     = Inr [Expr (Call (Name ''floor'') [Constant (IntV 7)]
                   [(Some ''key'', Attribute (Name ''x'') ''y'')])]
   \<and> contains_access
        (Call (Name ''floor'') [Constant (IntV 7)]
           [(Some ''key'', Attribute (Name ''x'') ''y'')] :: math_float expr)
   \<and> solve_math_expression cpython_fragment Map.empty ''floor(7, key=x.y)''
       = (IntV 7, Map.empty)"
  by (simp add: fragment_defs str_replace_char solve_math_expression_def allowed_funcs_lookup)

section \<open>Identifier resolution\<close>

text \<open>
  C3. A bare identifier is looked up in the variable table first, then in
  \<open>allowed_funcs\<close> (the value is the object the \<open>math\<close> module binds to the name), then
  in \<open>constants\<close>; a name that is in none of them raises the \<open>ValueError\<close> for an unknown
  identifier, and an input that is just such a name makes the call return \<open>None\<close>.
\<close>

theorem name_resolution_order:
  "(vars n = Some v \<longrightarrow> safe_eval_expr py vars (Name n) = Inr v)
   \<and> (vars n = None \<and> allowed_funcs py n = Some f \<longrightarrow>
        safe_eval_expr py vars (Name n) = Inr f \<and> f = math_getattr py n)
   \<and> (vars n = None \<and> allowed_funcs py n = None \<and> constants py n = Some c \<longrightarrow>
        safe_eval_expr py vars (Name n) = Inr c)
   \<and> (vars n = None \<and> allowed_funcs py n = None \<and> constants py n = None \<longrightarrow>
        safe_eval_expr py vars (Name n)
          = Inl (ValueError (''Unknown variable or function: '' @ n))
        \<and> (ast_parse py (str_replace ''^'' ''**'' s) = Inr [Expr (Name n)] \<longrightarrow>
             solve_math_expression py vars s = (NoneV, vars)))"
  by (auto simp: solve_math_expression_def allowed_funcs_lookup split: if_splits)

theorem name_resolution_order_witness:
  "safe_eval_expr cpython_fragment [''pi'' \<mapsto> IntV 3] (Name ''pi'') = Inr (IntV 3)
   \<and> allowed_funcs cpython_fragment ''pi'' = Some (FloatV F_pi)
   \<and> safe_eval_expr cpython_fragment Map.empty (Name ''pi'') = Inr (FloatV F_pi)
   \<and> allowed_funcs (cpython_fragment\<lparr>math_dir := []\<rparr>) ''pi'' = None
   \<and> constants (cpython_fragment\<lparr>math_dir := []\<rparr>) ''pi'' = Some (FloatV F_pi)
   \<and> safe_eval_expr (cpython_fragment\<lparr>math_dir := []\<rparr>) Map.empty (Name ''pi'')
       = Inr (FloatV F_pi)
   \<and> allowed_funcs cpython_fragment ''y'' = None
   \<and> constants cpython_fragment ''y'' = None
   \<and> solve_math_expression cpython_fragment Map.empty ''y'' = (NoneV, Map.empty)"
proof -
  have f: "allowed_funcs cpython_fragment ''pi'' = Some (FloatV F_pi)"
    by (simp add: fragment_defs allowed_funcs_lookup)
  have g: "allowed_funcs (cpython_fragment\<lparr>math_dir := []\<rparr>) ''pi'' = None"
    by (simp add: allowed_funcs_lookup)
  have c: "constants (cpython_fragment\<lparr>math_dir := []\<rparr>) ''pi'' = Some (FloatV F_pi)"
    by (simp add: fragment_defs)
  have y: "allowed_funcs cpython_fragment ''y'' = None"
    "constants cpython_fragment ''y'' = None"
    "ast_parse cpython_fragment (str_replace ''^'' ''**'' ''y'') = Inr [Expr (Name ''y'')]"
    by (simp_all add: fragment_defs allowed_funcs_lookup str_replace_char)
  from name_resolution_order
    [where py = cpython_fragment and vars = "[''pi'' \<mapsto> IntV 3]" and n = "''pi''"
       and v = "IntV 3"]
  have 1: "safe_eval_expr cpython_fragment [''pi'' \<mapsto> IntV 3] (Name ''pi'') = Inr (IntV 3)"
    by simp
  from name_resolution_order
    [where py = cpython_fragment and vars = Map.empty and n = "''pi''"
       and f = "FloatV F_pi"] f
  have 2: "safe_eval_expr cpython_fragment Map.empty (Name ''pi'') = Inr (FloatV F_pi)"
    by simp
  from name_resolution_order
    [where py = "cpython_fragment\<lparr>math_dir := []\<rparr>" and vars = Map.empty and n = "''pi''"
       and c = "FloatV F_pi"] g c
  have 3: "safe_eval_expr (cpython_fragment\<lparr>math_dir := []\<rparr>) Map.empty (Name ''pi'')
       = Inr (FloatV F_pi)"
    by simp
  from name_resolution_order
    [where py = cpython_fragment and vars = Map.empty and n = "''y''" and s = "''y''"] y
  have 4: "solve_math_expression cpython_fragment Map.empty ''y'' = (NoneV, Map.empty)"
    by simp
  from 1 2 3 4 f g c y show ?thesis
    by simp
qed

section \<open>Unsupported constructs\<close>

text \<open>
  C4, as the code has it. An attribute access, a subscript, a node of any other
  expression class, and a binary or unary operation whose operator is not in
  \<open>allowed_ops\<close> raise \<open>ValueError\<close> with the message \<open>Unsupported expression\<close>, and
  the call that evaluates one as a statement returns \<open>None\<close>. A statement that is
  neither an assignment nor an expression (import, loop, conditional) raises nothing:
  the call returns the string \<open>Unsupported statement\<close>. An assignment whose targets are
  not exactly one name returns the string \<open>Invalid assignment\<close>. Integer and float
  literals evaluate to their value.
\<close>

theorem unsupported_constructs:
  "safe_eval_expr py vars (Attribute x a) = Inl (ValueError ''Unsupported expression'')
   \<and> safe_eval_expr py vars (Subscript x i) = Inl (ValueError ''Unsupported expression'')
   \<and> safe_eval_expr py vars (OtherExpr k) = Inl (ValueError ''Unsupported expression'')
   \<and> (op \<notin> {Add, Sub, Mult, Div, Pow, Mod, USub} \<longrightarrow>
        safe_eval_expr py vars (BinOp lhs op rhs) = Inl (ValueError ''Unsupported expression'')
        \<and> safe_eval_expr py vars (UnaryOp op x) = Inl (ValueError ''Unsupported expression''))
   \<and> safe_eval_expr py vars (Constant (IntV j)) = Inr (IntV j)
   \<and> safe_eval_expr py vars (Constant (FloatV d)) = Inr (FloatV d)
   \<and> (ast_parse py (str_replace ''^'' ''**'' s) = Inr (pre @ st # post)
        \<and> list_all plain_stmt pre
        \<and> exec_body py pre NoneV vars = (Inr r, vars1) \<longrightarrow>
      (st = Expr e \<and> safe_eval_expr py vars1 e = Inl (ValueError ''Unsupported expression'')
         \<longrightarrow> solve_math_expression py vars s = (NoneV, vars1))
      \<and> (st = OtherStmt c \<longrightarrow>
         solve_math_expression py vars s = (StrV ''Unsupported statement'', vars1))
      \<and> (st = Assign ts e \<and> (\<forall>m. ts \<noteq> [Name m]) \<longrightarrow>
         solve_math_expression py vars s = (StrV ''Invalid assignment'', vars1)))"
proof -
  have ops: "op \<notin> {Add, Sub, Mult, Div, Pow, Mod, USub} \<longrightarrow>
        safe_eval_expr py vars (BinOp lhs op rhs) = Inl (ValueError ''Unsupported expression'')
        \<and> safe_eval_expr py vars (UnaryOp op x) = Inl (ValueError ''Unsupported expression'')"
    using allowed_ops_None [of op] by simp
  have stmts: "ast_parse py (str_replace ''^'' ''**'' s) = Inr (pre @ st # post)
        \<and> list_all plain_stmt pre
        \<and> exec_body py pre NoneV vars = (Inr r, vars1) \<longrightarrow>
      (st = Expr e \<and> safe_eval_expr py vars1 e = Inl (ValueError ''Unsupported expression'')
         \<longrightarrow> solve_math_expression py vars s = (NoneV, vars1))
      \<and> (st = OtherStmt c \<longrightarrow>
         solve_math_expression py vars s = (StrV ''Unsupported statement'', vars1))
      \<and> (st = Assign ts e \<and> (\<forall>m. ts \<noteq> [Name m]) \<longrightarrow>
         solve_math_expression py vars s = (StrV ''Invalid assignment'', vars1))"
  proof (intro impI conjI)
    assume a: "ast_parse py (str_replace ''^'' ''**'' s) = Inr (pre @ st # post)
        \<and> list_all plain_stmt pre
        \<and> exec_body py pre NoneV vars = (Inr r, vars1)"
    assume "st = Expr e
        \<and> safe_eval_expr py vars1 e = Inl (ValueError ''Unsupported expression'')"
    with a show "solve_math_expression py vars s = (NoneV, vars1)"
      using solve_prefix_cases(1) [of py s pre st post vars r vars1 e] by simp
  next
    assume a: "ast_parse py (str_replace ''^'' ''**'' s) = Inr (pre @ st # post)
        \<and> list_all plain_stmt pre
        \<and> exec_body py pre NoneV vars = (Inr r, vars1)"
    assume "st = OtherStmt c"
    with a show "solve_math_expression py vars s = (StrV ''Unsupported statement'', vars1)"
      using solve_prefix_cases(4) [of py s pre st post vars r vars1 c] by simp
  next
    assume a: "ast_parse py (str_replace ''^'' ''**'' s) = Inr (pre @ st # post)
        \<and> list_all plain_stmt pre
        \<and> exec_body py pre NoneV vars = (Inr r, vars1)"
    assume "st = Assign ts e \<and> (\<forall>m. ts \<noteq> [Name m])"
    with a show "solve_math_expression py vars s = (StrV ''Invalid assignment'', vars1)"
      using solve_prefix_cases(3) [of py s pre st post vars r vars1 ts e] by simp
  qed
  from ops stmts show ?thesis
    by simp
qed

theorem unsupported_constructs_witness:
  "ast_parse cpython_fragment (str_replace ''^'' ''**'' ''import os'')
     = Inr ([] @ OtherStmt ''Import'' # [])
   \<and> solve_math_expression cpython_fragment Map.empty ''import os''
       = (StrV ''Unsupported statement'', Map.empty)
   \<and> safe_eval_expr cpython_fragment Map.empty
        (BinOp (Constant (IntV 7)) FloorDiv (Constant (IntV 2)))
       = Inl (ValueError ''Unsupported expression'')"
proof -
  have p: "ast_parse cpython_fragment (str_replace ''^'' ''**'' ''import os'')
     = Inr ([] @ OtherStmt ''Import'' # [])"
    by (simp add: fragment_defs str_replace_char)
  note t = unsupported_constructs
    [where py = cpython_fragment and s = "''import os''" and pre = "[]" and post = "[]"
       and st = "OtherStmt ''Import''" and c = "''Import''"
       and vars = Map.empty and r = NoneV and ?vars1.0 = Map.empty
       and op = FloorDiv and lhs = "Constant (IntV 7)" and rhs = "Constant (IntV 2)"]
  from t p
  have "solve_math_expression cpython_fragment Map.empty ''import os''
       = (StrV ''Unsupported statement'', Map.empty)"
    by simp
  moreover from t
  have "safe_eval_expr cpython_fragment Map.empty
        (BinOp (Constant (IntV 7)) FloorDiv (Constant (IntV 2)))
       = Inl (ValueError ''Unsupported expression'')"
    by simp
  ultimately show ?thesis
    using p by simp
qed

text \<open>
  The claim as stated fails on string literals: a bare string literal evaluates to
  itself and the sum of two string literals to their concatenation.
\<close>

theorem string_literal_has_value:
  "safe_eval_expr cpython_fragment Map.empty (Constant (StrV ''hi'')) = Inr (StrV ''hi'')
   \<and> safe_eval_expr cpython_fragment Map.empty
        (BinOp (Constant (StrV ''a'')) Add (Constant (StrV ''b''))) = Inr (StrV ''ab'')"
  by (simp add: fragment_defs)

section \<open>Statements in order\<close>

text \<open>
  C5. The statements of an input are evaluated in order, each in the variable table
  that the statements before it left: an assignment to one name binds the value of its
  right-hand side under that name and passes it on as the result, an expression
  statement passes on its value, and the call returns the value of the last statement.
  With the table \<open>x = 5\<close> leaves, \<open>x + 1\<close> evaluates to 6.
\<close>

theorem statements_in_order:
  "(ast_parse py (str_replace ''^'' ''**'' s) = Inr (pre @ [st])
      \<and> list_all plain_stmt pre
      \<and> exec_body py pre NoneV vars = (Inr r, vars1) \<longrightarrow>
      (st = Expr e \<and> safe_eval_expr py vars1 e = Inr v \<longrightarrow>
         solve_math_expression py vars s = (v, vars1))
      \<and> (st = Assign [Name n] e \<and> safe_eval_expr py vars1 e = Inr v \<longrightarrow>
         solve_math_expression py vars s = (v, vars1(n \<mapsto> v))))
   \<and> (safe_eval_expr py vars0 e0 = Inr v0 \<longrightarrow>
        exec_body py (Assign [Name n] e0 # rest) r0 vars0
          = exec_body py rest v0 (vars0(n \<mapsto> v0))
        \<and> exec_body py (Expr e0 # rest) r0 vars0 = exec_body py rest v0 vars0)
   \<and> (ast_parse py ''x = 5'' = Inr [Assign [Name ''x''] (Constant (IntV 5))]
        \<and> ast_parse py ''x + 1'' = Inr [Expr (BinOp (Name ''x'') Add (Constant (IntV 1)))]
      \<longrightarrow>
        solve_math_expression py vars ''x = 5'' = (IntV 5, vars(''x'' \<mapsto> IntV 5))
        \<and> solve_math_expression py (vars(''x'' \<mapsto> IntV 5)) ''x + 1''
            = (IntV 6, vars(''x'' \<mapsto> IntV 5)))"
proof (intro conjI impI)
  assume a: "ast_parse py (str_replace ''^'' ''**'' s) = Inr (pre @ [st])
      \<and> list_all plain_stmt pre
      \<and> exec_body py pre NoneV vars = (Inr r, vars1)"
  assume "st = Expr e \<and> safe_eval_expr py vars1 e = Inr v"
  with a show "solve_math_expression py vars s = (v, vars1)"
    using solve_prefix_cases(5) [of py s pre st "[]" vars r vars1 e v] by simp
next
  assume a: "ast_parse py (str_replace ''^'' ''**'' s) = Inr (pre @ [st])
      \<and> list_all plain_stmt pre
      \<and> exec_body py pre NoneV vars = (Inr r, vars1)"
  assume "st = Assign [Name n] e \<and> safe_eval_expr py vars1 e = Inr v"
  with a show "solve_math_expression py vars s = (v, vars1(n \<mapsto> v))"
    using solve_prefix_cases(6) [of py s pre st "[]" vars r vars1 e v n] by simp
next
  assume "safe_eval_expr py vars0 e0 = Inr v0"
  then show "exec_body py (Assign [Name n] e0 # rest) r0 vars0
          = exec_body py rest v0 (vars0(n \<mapsto> v0))"
    by simp
next
  assume "safe_eval_expr py vars0 e0 = Inr v0"
  then show "exec_body py (Expr e0 # rest) r0 vars0 = exec_body py rest v0 vars0"
    by simp
next
  assume "ast_parse py ''x = 5'' = Inr [Assign [Name ''x''] (Constant (IntV 5))]
        \<and> ast_parse py ''x + 1'' = Inr [Expr (BinOp (Name ''x'') Add (Constant (IntV 1)))]"
  then show "solve_math_expression py vars ''x = 5'' = (IntV 5, vars(''x'' \<mapsto> IntV 5))"
    by (simp add: solve_math_expression_def str_replace_char)
next
  assume "ast_parse py ''x = 5'' = Inr [Assign [Name ''x''] (Constant (IntV 5))]
        \<and> ast_parse py ''x + 1'' = Inr [Expr (BinOp (Name ''x'') Add (Constant (IntV 1)))]"
  then show "solve_math_expression py (vars(''x'' \<mapsto> IntV 5)) ''x + 1''
            = (IntV 6, vars(''x'' \<mapsto> IntV 5))"
    by (simp add: solve_math_expression_def str_replace_char allowed_ops_def
          call_operator_def)
qed

theorem statements_in_order_witness:
  "ast_parse cpython_fragment ''x = 5'' = Inr [Assign [Name ''x''] (Constant (IntV 5))]
   \<and> ast_parse cpython_fragment ''x + 1''
       = Inr [Expr (BinOp (Name ''x'') Add (Constant (IntV 1)))]
   \<and> solve_math_expression cpython_fragment Map.empty ''x = 5''
       = (IntV 5, [''x'' \<mapsto> IntV 5])
   \<and> solve_math_expression cpython_fragment [''x'' \<mapsto> IntV 5] ''x + 1''
       = (IntV 6, [''x'' \<mapsto> IntV 5])
   \<and> solve_math_expression cpython_fragment Map.empty ''x = 5; x + 1''
       = (IntV 6, [''x'' \<mapsto> IntV 5])"
proof -
  have p: "ast_parse cpython_fragment ''x = 5'' = Inr [Assign [Name ''x''] (Constant (IntV 5))]"
    "ast_parse cpython_fragment ''x + 1''
       = Inr [Expr (BinOp (Name ''x'') Add (Constant (IntV 1)))]"
    by (simp_all add: fragment_defs)
  have q: "ast_parse cpython_fragment (str_replace ''^'' ''**'' ''x = 5; x + 1'')
       = Inr ([Assign [Name ''x''] (Constant (IntV 5))]
              @ [Expr (BinOp (Name ''x'') Add (Constant (IntV 1)))])"
    "list_all plain_stmt [Assign [Name ''x''] (Constant (IntV 5)) :: math_float stmt]"
    "exec_body cpython_fragment [Assign [Name ''x''] (Constant (IntV 5))] NoneV Map.empty
       = (Inr (IntV 5), [''x'' \<mapsto> IntV 5])"
    "safe_eval_expr cpython_fragment [''x'' \<mapsto> IntV 5]
       (BinOp (Name ''x'') Add (Constant (IntV 1))) = Inr (IntV 6)"
    by (simp_all add: fragment_defs str_replace_char)
  from statements_in_order [where py = cpython_fragment and vars = Map.empty] p
  have 1: "solve_math_expression cpython_fragment Map.empty ''x = 5''
       = (IntV 5, [''x'' \<mapsto> IntV 5])"
    "solve_math_expression cpython_fragment [''x'' \<mapsto> IntV 5] ''x + 1''
       = (IntV 6, [''x'' \<mapsto> IntV 5])"
    by simp_all
  from statements_in_order
    [where py = cpython_fragment and vars = Map.empty and s = "''x = 5; x + 1''"
       and pre = "[Assign [Name ''x''] (Constant (IntV 5))]"
       and st = "Expr (BinOp (Name ''x'') Add (Constant (IntV 1)))"
       and e = "BinOp (Name ''x'') Add (Constant (IntV 1))"
       and r = "IntV 5" and ?vars1.0 = "[''x'' \<mapsto> IntV 5]" and v = "IntV 6"] q
  have 2: "solve_math_expression cpython_fragment Map.empty ''x = 5; x + 1''
       = (IntV 6, [''x'' \<mapsto> IntV 5])"
    by simp
  from p 1 2 show ?thesis
    by simp
qed

section \<open>The caret\<close>

text \<open>
  C6. Before parsing, every \<open>^\<close> of the input is replaced by \<open>**\<close>, wherever it
  stands: the parser sees no \<open>^\<close>, the call depends on the input only through the
  replaced text, and \<open>2^3\<close> evaluates to 8.
\<close>

theorem caret_becomes_power:
  "str_replace ''^'' ''**'' s
     = concat (map (\<lambda>c. if c = CHR ''^'' then ''**'' else [c]) s)
   \<and> CHR ''^'' \<notin> set (str_replace ''^'' ''**'' s)
   \<and> str_replace ''^'' ''**'' ''a^b = 1^'' = ''a**b = 1**''
   \<and> (str_replace ''^'' ''**'' s = str_replace ''^'' ''**'' t \<longrightarrow>
        solve_math_expression py vars s = solve_math_expression py vars t)
   \<and> (ast_parse py ''2**3'' = Inr [Expr (BinOp (Constant (IntV 2)) Pow (Constant (IntV 3)))]
        \<longrightarrow> solve_math_expression py vars ''2^3'' = (IntV 8, vars))"
proof (intro conjI impI)
  show "str_replace ''^'' ''**'' s
     = concat (map (\<lambda>c. if c = CHR ''^'' then ''**'' else [c]) s)"
    by (rule str_replace_char)
next
  show "CHR ''^'' \<notin> set (str_replace ''^'' ''**'' s)"
    by (auto simp: str_replace_char split: if_splits)
next
  show "str_replace ''^'' ''**'' ''a^b = 1^'' = ''a**b = 1**''"
    by (simp add: str_replace_char)
next
  assume "str_replace ''^'' ''**'' s = str_replace ''^'' ''**'' t"
  then show "solve_math_expression py vars s = solve_math_expression py vars t"
    by (simp add: solve_math_expression_def)
next
  assume "ast_parse py ''2**3''
            = Inr [Expr (BinOp (Constant (IntV 2)) Pow (Constant (IntV 3)))]"
  then show "solve_math_expression py vars ''2^3'' = (IntV 8, vars)"
    by (simp add: solve_math_expression_def str_replace_char allowed_ops_def
          call_operator_def)
qed

theorem caret_becomes_power_witness:
  "ast_parse cpython_fragment ''2**3''
     = Inr [Expr (BinOp (Constant (IntV 2)) Pow (Constant (IntV 3)))]
   \<and> str_replace ''^'' ''**'' ''2^3'' = ''2**3''
   \<and> solve_math_expression cpython_fragment Map.empty ''2^3'' = (IntV 8, Map.empty)
   \<and> solve_math_expression cpython_fragment Map.empty ''2^3''
       = solve_math_expression cpython_fragment Map.empty ''2**3''"
proof -
  have p: "ast_parse cpython_fragment ''2**3''
     = Inr [Expr (BinOp (Constant (IntV 2)) Pow (Constant (IntV 3)))]"
    by (simp add: fragment_defs)
  have q: "str_replace ''^'' ''**'' ''2^3'' = ''2**3''"
    "str_replace ''^'' ''**'' ''2^3'' = str_replace ''^'' ''**'' ''2**3''"
    by (simp_all add: str_replace_char)
  note t = caret_becomes_power
    [where py = cpython_fragment and vars = Map.empty and s = "''2^3''" and t = "''2**3''"]
  from t p
  have 1: "solve_math_expression cpython_fragment Map.empty ''2^3'' = (IntV 8, Map.empty)"
    by blast
  from t q(2)
  have 2: "solve_math_expression cpython_fragment Map.empty ''2^3''
       = solve_math_expression cpython_fragment Map.empty ''2**3''"
    by blast
  from p q(1) 1 2 show ?thesis
    by simp
qed

section \<open>Loading and querying the knowledge base\<close>

text \<open>
  C7. \<open>load_knowledge_base\<close> returns what the JSON reader returns when the file opens
  and parses; it returns the empty structure when \<open>FileNotFoundError\<close> is raised; every
  other exception of the read or the parse is raised to the caller. So a structure is
  returned only as the parsed content or, for a missing file, as the empty one.
\<close>

theorem load_knowledge_base_outcomes:
  "(open_read py p = Inr content \<and> json_loads py content = Inr data \<longrightarrow>
      load_knowledge_base py p = Inr data)
   \<and> (open_read py p = Inl FileNotFoundError \<longrightarrow>
      load_knowledge_base py p = Inr (JObj [(''questions'', JArr [])]))
   \<and> (open_read py p = Inl exc \<and> exc \<noteq> FileNotFoundError \<longrightarrow>
      load_knowledge_base py p = Inl exc)
   \<and> (open_read py p = Inr content \<and> json_loads py content = Inl exc \<and> exc \<noteq> FileNotFoundError
      \<longrightarrow> load_knowledge_base py p = Inl exc)
   \<and> (load_knowledge_base py p = Inr kb \<longrightarrow>
      (\<exists>content. open_read py p = Inr content \<and> json_loads py content = Inr kb)
      \<or> (kb = JObj [(''questions'', JArr [])]
          \<and> (open_read py p = Inl FileNotFoundError
              \<or> (\<exists>content. open_read py p = Inr content
                    \<and> json_loads py content = Inl FileNotFoundError))))"
  by (auto simp: load_knowledge_base_def split: sum.splits if_splits)

theorem load_knowledge_base_outcomes_witness:
  "open_read cpython_fragment ''missing.json'' = Inl FileNotFoundError
   \<and> load_knowledge_base cpython_fragment ''missing.json''
       = Inr (JObj [(''questions'', JArr [])])
   \<and> load_knowledge_base cpython_fragment ''kb.json'' = Inr (JObj [])
   \<and> load_knowledge_base cpython_fragment ''locked.json''
       = Inl (OtherException ''PermissionError'')
   \<and> load_knowledge_base cpython_fragment ''bad.json''
       = Inl (ValueError ''JSONDecodeError'')"
proof -
  have o: "open_read cpython_fragment ''missing.json'' = Inl FileNotFoundError"
    "open_read cpython_fragment ''kb.json'' = Inr ''{}''"
    "json_loads cpython_fragment ''{}'' = Inr (JObj [])"
    "open_read cpython_fragment ''locked.json'' = Inl (OtherException ''PermissionError'')"
    "open_read cpython_fragment ''bad.json'' = Inr ''{''"
    "json_loads cpython_fragment ''{'' = Inl (ValueError ''JSONDecodeError'')"
    by (simp_all add: fragment_defs)
  from load_knowledge_base_outcomes [where py = cpython_fragment and p = "''missing.json''"]
    o(1)
  have 1: "load_knowledge_base cpython_fragment ''missing.json''
       = Inr (JObj [(''questions'', JArr [])])"
    by blast
  from load_knowledge_base_outcomes
    [where py = cpython_fragment and p = "''kb.json''" and content = "''{}''"
       and data = "JObj []"] o(2,3)
  have 2: "load_knowledge_base cpython_fragment ''kb.json'' = Inr (JObj [])"
    by blast
  from load_knowledge_base_outcomes
    [where py = cpython_fragment and p = "''locked.json''"
       and exc = "OtherException ''PermissionError''"] o(4)
  have 3: "load_knowledge_base cpython_fragment ''locked.json''
       = Inl (OtherException ''PermissionError'')"
    by simp
  from load_knowledge_base_outcomes
    [where py = cpython_fragment and p = "''bad.json''" and content = "''{''"
       and exc = "ValueError ''JSONDecodeError''"] o(5,6)
  have 4: "load_knowledge_base cpython_fragment ''bad.json''
       = Inl (ValueError ''JSONDecodeError'')"
    by simp
  from o(1) 1 2 3 4 show ?thesis
    by simp
qed

text \<open>
  C8. On a knowledge base whose \<open>questions\<close> is a list of entries, the lookup returns
  the answer of the first entry, in stored order, whose question is the query string
  itself, whatever entries follow it, and returns \<open>None\<close> without raising when no entry
  has that question.
\<close>

theorem first_matching_answer:
  "getitem kb ''questions'' = Inr (JArr es) \<and> list_all knowledge_entry es \<longrightarrow>
     (es = pre @ e # post
        \<and> (\<forall>p \<in> set pre. getitem p ''question'' \<noteq> Inr (JStr q))
        \<and> getitem e ''question'' = Inr (JStr q) \<longrightarrow>
      get_answer_for_question q kb = getitem e ''answer''
      \<and> (\<exists>a. getitem e ''answer'' = Inr (JStr a)))
     \<and> ((\<forall>p \<in> set es. getitem p ''question'' \<noteq> Inr (JStr q)) \<longrightarrow>
        get_answer_for_question q kb = Inr JNull)"
proof (intro impI conjI)
  assume a: "getitem kb ''questions'' = Inr (JArr es) \<and> list_all knowledge_entry es"
  assume b: "es = pre @ e # post
        \<and> (\<forall>p \<in> set pre. getitem p ''question'' \<noteq> Inr (JStr q))
        \<and> getitem e ''question'' = Inr (JStr q)"
  from a b have "list_all knowledge_entry pre"
    by simp
  with b have "scan_questions (pre @ e # post) q = getitem e ''answer''"
    by (simp add: scan_first_match)
  with a b show "get_answer_for_question q kb = getitem e ''answer''"
    by (simp add: get_answer_for_question_def iter_items_def)
next
  assume a: "getitem kb ''questions'' = Inr (JArr es) \<and> list_all knowledge_entry es"
  assume b: "es = pre @ e # post
        \<and> (\<forall>p \<in> set pre. getitem p ''question'' \<noteq> Inr (JStr q))
        \<and> getitem e ''question'' = Inr (JStr q)"
  from a b have "knowledge_entry e"
    by simp
  then show "\<exists>a. getitem e ''answer'' = Inr (JStr a)"
    by (auto simp: knowledge_entry_def split: sum.splits json.splits)
next
  assume a: "getitem kb ''questions'' = Inr (JArr es) \<and> list_all knowledge_entry es"
  assume "\<forall>p \<in> set es. getitem p ''question'' \<noteq> Inr (JStr q)"
  with a have "scan_questions es q = Inr JNull"
    by (simp add: scan_no_match)
  with a show "get_answer_for_question q kb = Inr JNull"
    by (simp add: get_answer_for_question_def iter_items_def)
qed

theorem first_matching_answer_witness:
  "get_answer_for_question ''hi'' example_kb = Inr (JStr ''A'')
   \<and> get_answer_for_question ''Hi'' example_kb = Inr (JStr ''B'')
   \<and> get_answer_for_question ''HI'' example_kb = Inr JNull"
proof -
  let ?a = "JObj [(''question'', JStr ''hi''), (''answer'', JStr ''A'')] :: math_float json"
  let ?b = "JObj [(''question'', JStr ''Hi''), (''answer'', JStr ''B'')] :: math_float json"
  let ?c = "JObj [(''question'', JStr ''hi''), (''answer'', JStr ''C'')] :: math_float json"
  have k: "getitem example_kb ''questions'' = Inr (JArr [?a, ?b, ?c])"
    "list_all knowledge_entry [?a, ?b, ?c]"
    by (simp_all add: example_kb_def getitem_def knowledge_entry_def)
  have g: "getitem ?a ''question'' = Inr (JStr ''hi'')"
    "getitem ?a ''answer'' = Inr (JStr ''A'')"
    "getitem ?b ''question'' = Inr (JStr ''Hi'')"
    "getitem ?b ''answer'' = Inr (JStr ''B'')"
    "getitem ?c ''question'' = Inr (JStr ''hi'')"
    by (simp_all add: getitem_def)
  from first_matching_answer
    [where kb = example_kb and es = "[?a, ?b, ?c]" and pre = "[]" and e = ?a
       and post = "[?b, ?c]" and q = "''hi''"] k g
  have 1: "get_answer_for_question ''hi'' example_kb = Inr (JStr ''A'')"
    by simp
  from first_matching_answer
    [where kb = example_kb and es = "[?a, ?b, ?c]" and pre = "[?a]" and e = ?b
       and post = "[?c]" and q = "''Hi''"] k g
  have 2: "get_answer_for_question ''Hi'' example_kb = Inr (JStr ''B'')"
    by simp
  from first_matching_answer
    [where kb = example_kb and es = "[?a, ?b, ?c]" and q = "''HI''"] k g
  have 3: "get_answer_for_question ''HI'' example_kb = Inr JNull"
    by simp
  from 1 2 3 show ?thesis
    by simp
qed

section \<open>The function registry holds the module's floats\<close>

text \<open>
  C9. Every name of the \<open>math\<close> module that does not start with two underscores is in
  \<open>allowed_funcs\<close>, functions and floats alike. So when the module has them and no
  variable shadows them, \<open>tau\<close>, \<open>inf\<close>, \<open>nan\<close>, \<open>pi\<close> and \<open>e\<close> all evaluate to the module's
  value through \<open>allowed_funcs\<close>, although \<open>constants\<close> names only \<open>pi\<close> and \<open>e\<close>.
\<close>

theorem math_floats_in_function_registry:
  "(n \<in> set (math_dir py) \<and> \<not> startswith n ''__'' \<longrightarrow>
      allowed_funcs py n = Some (math_getattr py n))
   \<and> (n \<in> {''tau'', ''inf'', ''nan'', ''pi'', ''e''} \<and> n \<in> set (math_dir py) \<and> vars n = None
      \<longrightarrow>
      allowed_funcs py n = Some (math_getattr py n)
      \<and> safe_eval_expr py vars (Name n) = Inr (math_getattr py n)
      \<and> (ast_parse py (str_replace ''^'' ''**'' s) = Inr [Expr (Name n)] \<longrightarrow>
           solve_math_expression py vars s = (math_getattr py n, vars)))
   \<and> dom (constants py) = {''pi'', ''e''}"
proof (intro conjI)
  show "n \<in> set (math_dir py) \<and> \<not> startswith n ''__'' \<longrightarrow>
      allowed_funcs py n = Some (math_getattr py n)"
    by (simp add: allowed_funcs_lookup)
next
  show "n \<in> {''tau'', ''inf'', ''nan'', ''pi'', ''e''} \<and> n \<in> set (math_dir py) \<and> vars n = None
      \<longrightarrow>
      allowed_funcs py n = Some (math_getattr py n)
      \<and> safe_eval_expr py vars (Name n) = Inr (math_getattr py n)
      \<and> (ast_parse py (str_replace ''^'' ''**'' s) = Inr [Expr (Name n)] \<longrightarrow>
           solve_math_expression py vars s = (math_getattr py n, vars))"
  proof
    assume a: "n \<in> {''tau'', ''inf'', ''nan'', ''pi'', ''e''} \<and> n \<in> set (math_dir py)
      \<and> vars n = None"
    then have "\<not> startswith n ''__''"
      by (auto simp: startswith_def)
    with a have f: "allowed_funcs py n = Some (math_getattr py n)"
      by (simp add: allowed_funcs_lookup)
    with a show "allowed_funcs py n = Some (math_getattr py n)
      \<and> safe_eval_expr py vars (Name n) = Inr (math_getattr py n)
      \<and> (ast_parse py (str_replace ''^'' ''**'' s) = Inr [Expr (Name n)] \<longrightarrow>
           solve_math_expression py vars s = (math_getattr py n, vars))"
      by (simp add: solve_math_expression_def)
  qed
next
  show "dom (constants py) = {''pi'', ''e''}"
    by (rule constants_dom)
qed

theorem math_floats_in_function_registry_witness:
  "''tau'' \<in> set (math_dir cpython_fragment)
   \<and> constants cpython_fragment ''tau'' = None
   \<and> allowed_funcs cpython_fragment ''tau'' = Some (FloatV F_tau)
   \<and> safe_eval_expr cpython_fragment Map.empty (Name ''tau'') = Inr (FloatV F_tau)
   \<and> solve_math_expression cpython_fragment Map.empty ''tau'' = (FloatV F_tau, Map.empty)"
proof -
  have h: "''tau'' \<in> set (math_dir cpython_fragment)"
    "constants cpython_fragment ''tau'' = None"
    "math_getattr cpython_fragment ''tau'' = FloatV F_tau"
    "ast_parse cpython_fragment (str_replace ''^'' ''**'' ''tau'') = Inr [Expr (Name ''tau'')]"
    by (simp_all add: fragment_defs str_replace_char)
  from math_floats_in_function_registry
    [where py = cpython_fragment and n = "''tau''" and vars = Map.empty and s = "''tau''"] h
  have "allowed_funcs cpython_fragment ''tau'' = Some (FloatV F_tau)
   \<and> safe_eval_expr cpython_fragment Map.empty (Name ''tau'') = Inr (FloatV F_tau)
   \<and> solve_math_expression cpython_fragment Map.empty ''tau'' = (FloatV F_tau, Map.empty)"
    by simp
  with h show ?thesis
    by simp
qed

section \<open>Failure is not atomic\<close>

text \<open>
  C10. When an input is an assignment that succeeds followed by an expression that
  raises, the call returns \<open>None\<close> and the variable table keeps the binding of the
  assignment; so does \<open>x = 5; 1/0\<close>.
\<close>

theorem solve_is_not_atomic:
  "(ast_parse py (str_replace ''^'' ''**'' s) = Inr [Assign [Name n] e1, Expr e2]
      \<and> safe_eval_expr py vars e1 = Inr v
      \<and> safe_eval_expr py (vars(n \<mapsto> v)) e2 = Inl exc \<longrightarrow>
      solve_math_expression py vars s = (NoneV, vars(n \<mapsto> v)))
   \<and> (ast_parse py ''x = 5; 1/0''
        = Inr [Assign [Name ''x''] (Constant (IntV 5)),
               Expr (BinOp (Constant (IntV 1)) Div (Constant (IntV 0)))] \<longrightarrow>
      solve_math_expression py vars ''x = 5; 1/0'' = (NoneV, vars(''x'' \<mapsto> IntV 5)))"
  by (simp add: solve_math_expression_def str_replace_char allowed_ops_def call_operator_def)

theorem solve_is_not_atomic_witness:
  "ast_parse cpython_fragment ''x = 5; 1/0''
     = Inr [Assign [Name ''x''] (Constant (IntV 5)),
            Expr (BinOp (Constant (IntV 1)) Div (Constant (IntV 0)))]
   \<and> (Map.empty :: math_float variables) ''x'' = None
   \<and> fst (solve_math_expression cpython_fragment Map.empty ''x = 5; 1/0'') = NoneV
   \<and> snd (solve_math_expression cpython_fragment Map.empty ''x = 5; 1/0'') ''x''
       = Some (IntV 5)"
proof -
  have p: "ast_parse cpython_fragment ''x = 5; 1/0''
     = Inr [Assign [Name ''x''] (Constant (IntV 5)),
            Expr (BinOp (Constant (IntV 1)) Div (Constant (IntV 0)))]"
    by (simp add: fragment_defs)
  from solve_is_not_atomic [where py = cpython_fragment and vars = Map.empty] p
  have "solve_math_expression cpython_fragment Map.empty ''x = 5; 1/0''
          = (NoneV, [''x'' \<mapsto> IntV 5])"
    by blast
  with p show ?thesis
    by simp
qed

end
